theory Spec2Isabelle
  imports Main
begin

section \<open>Python values used by setup.py\<close>

text \<open>
  Text is a list of characters.  The character classes of Python's \<open>re\<close> and \<open>str\<close>
  are given for the ASCII range, which is what git, cmake and the rewritten files hold.
  An exception is a value: its class and the message it was raised with.
\<close>

datatype exn_class =
    RuntimeError | AssertionError | AttributeError | IndexError | ValueError | TypeError
  | FileNotFoundError | IsADirectoryError | NotADirectoryError | FileExistsError
  | DistutilsExecError

datatype exn = Exn exn_class string

fun message :: "exn \<Rightarrow> string" where
  "message (Exn k m) = m"

fun exn_kind :: "exn \<Rightarrow> exn_class" where
  "exn_kind (Exn k m) = k"

abbreviation nl :: char where "nl \<equiv> CHR 0x0A"
abbreviation cr :: char where "cr \<equiv> CHR 0x0D"
abbreviation dq :: char where "dq \<equiv> CHR 0x22"
abbreviation sq :: char where "sq \<equiv> CHR 0x27"
abbreviation bs :: char where "bs \<equiv> CHR 0x5C"

definition code :: "char \<Rightarrow> nat" where
  "code c = of_char c"

definition is_digit :: "char \<Rightarrow> bool" where
  "is_digit c = (48 \<le> code c \<and> code c \<le> 57)"

definition is_word :: "char \<Rightarrow> bool" where
  "is_word c = (is_digit c \<or> (65 \<le> code c \<and> code c \<le> 90)
                 \<or> (97 \<le> code c \<and> code c \<le> 122) \<or> code c = 95)"

text \<open>\<open>str.isspace\<close>, which \<open>\s\<close>, \<open>strip\<close> and \<open>split\<close> share: tab to carriage return,
  the four separators 0x1c-0x1f and the blank.\<close>

definition is_space :: "char \<Rightarrow> bool" where
  "is_space c = ((9 \<le> code c \<and> code c \<le> 13) \<or> (28 \<le> code c \<and> code c \<le> 32))"

definition digit_char :: "nat \<Rightarrow> char" where
  "digit_char n = ''0123456789'' ! (n mod 10)"

fun show_nat :: "nat \<Rightarrow> string" where
  "show_nat n = (if n < 10 then [digit_char n] else show_nat (n div 10) @ [digit_char n])"

declare show_nat.simps [simp del]

text \<open>\<open>'%d' % i\<close> and \<open>'%s' % i\<close> for an integer.\<close>

definition show_int :: "int \<Rightarrow> string" where
  "show_int i = (if i < 0 then CHR ''-'' # show_nat (nat (- i)) else show_nat (nat i))"

definition hex_char :: "nat \<Rightarrow> char" where
  "hex_char n = ''0123456789abcdef'' ! (n mod 16)"

text \<open>\<open>repr\<close> of a string, as \<open>'%r' % s\<close> prints it: single quotes unless the text has a
  single quote and no double quote; the quote and the backslash escaped, control
  characters written as escapes.\<close>

definition repr_char :: "char \<Rightarrow> char \<Rightarrow> string" where
  "repr_char q c =
     (if c = q \<or> c = bs then [bs, c]
      else if c = CHR 0x09 then [bs, CHR ''t'']
      else if c = nl then [bs, CHR ''n'']
      else if c = CHR 0x0D then [bs, CHR ''r'']
      else if code c < 32 \<or> 127 \<le> code c
           then [bs, CHR ''x'', hex_char (code c div 16), hex_char (code c)]
      else [c])"

definition py_repr :: "string \<Rightarrow> string" where
  "py_repr s =
     (let q = (if sq \<in> set s \<and> dq \<notin> set s then dq else sq)
      in q # concat (map (repr_char q) s) @ [q])"

definition strip :: "string \<Rightarrow> string" where
  "strip s = rev (dropWhile is_space (rev (dropWhile is_space s)))"

text \<open>\<open>str.split()\<close>: the words between runs of white space; \<open>cur\<close> is the word
  being read.\<close>

fun split_from :: "string \<Rightarrow> string \<Rightarrow> string list" where
  "split_from cur [] = (if cur = [] then [] else [cur])"
| "split_from cur (c # cs) =
     (if is_space c then (if cur = [] then split_from [] cs else cur # split_from [] cs)
      else split_from (cur @ [c]) cs)"

definition split :: "string \<Rightarrow> string list" where
  "split s = split_from [] s"

text \<open>
  The lines of a file opened with \<open>open(path, "r")\<close>, as \<open>readlines\<close> and
  \<open>for line in stream\<close> give them.  The text layer reads with universal newlines: a
  carriage return, alone or followed by a line feed, ends a line as a line feed does and
  is turned into one.  Each line keeps its newline; a last line may lack it.  The flag of
  \<open>lines_from\<close> says that the character before was a carriage return.
\<close>

fun lines_from :: "bool \<Rightarrow> string \<Rightarrow> string list" where
  "lines_from after_cr [] = []"
| "lines_from after_cr (c # cs) =
     (if c = nl then (if after_cr then lines_from False cs else [nl] # lines_from False cs)
      else if c = cr then [nl] # lines_from True cs
      else (case lines_from False cs of [] \<Rightarrow> [[c]] | l # ls \<Rightarrow> (c # l) # ls))"

definition readlines :: "string \<Rightarrow> string list" where
  "readlines s = lines_from False s"


text \<open>\<open>int(s)\<close> for a word without white space: an optional sign, then digits, which
  single underscores may separate.\<close>

fun digits_ok :: "bool \<Rightarrow> string \<Rightarrow> bool" where
  "digits_ok after_digit [] = after_digit"
| "digits_ok after_digit (c # cs) =
     (if is_digit c then digits_ok True cs
      else if c = CHR ''_'' \<and> after_digit then digits_ok False cs
      else False)"

definition digits_value :: "string \<Rightarrow> int" where
  "digits_value s = foldl (\<lambda>acc c. if is_digit c then 10 * acc + (int (code c) - 48) else acc) 0 s"

definition py_int :: "string \<Rightarrow> exn + int" where
  "py_int s =
     (let body = (case s of [] \<Rightarrow> [] | c # cs \<Rightarrow> if c = CHR ''-'' \<or> c = CHR ''+'' then cs else s)
      in if digits_ok False body
         then Inr (if take 1 s = ''-'' then - digits_value body else digits_value body)
         else Inl (Exn ValueError (''invalid literal for int() with base 10: '' @ py_repr s)))"

section \<open>Regular expressions\<close>

text \<open>
  The fragment of \<open>re\<close> that setup.py uses: literals, a character class under \<open>*\<close> or
  \<open>+\<close>, numbered groups, \<open>?\<close> and concatenation.  \<open>matches r s g\<close> lists, in the order
  in which the backtracking matcher tries them (greedy: longest first), the ways \<open>r\<close>
  matches a prefix of \<open>s\<close>: what is left of \<open>s\<close>, and the groups.  \<open>search\<close> takes
  the first way at the leftmost position that has one.
\<close>

datatype cclass = W | D | S | Any | Ch char | Union cclass cclass

fun in_class :: "cclass \<Rightarrow> char \<Rightarrow> bool" where
  "in_class W c = is_word c"
| "in_class D c = is_digit c"
| "in_class S c = is_space c"
| "in_class Any c = (c \<noteq> nl)"
| "in_class (Ch x) c = (c = x)"
| "in_class (Union a b) c = (in_class a c \<or> in_class b c)"

datatype regex = Lit string | Star cclass | Plus cclass | Grp nat regex | Opt regex
  | Seq regex regex

type_synonym groups = "nat \<Rightarrow> string option"

fun runs :: "(char \<Rightarrow> bool) \<Rightarrow> string \<Rightarrow> (string \<times> string) list" where
  "runs p [] = [([], [])]"
| "runs p (x # xs) =
     (if p x then map (\<lambda>(m, r). (x # m, r)) (runs p xs) else []) @ [([], x # xs)]"

fun matches :: "regex \<Rightarrow> string \<Rightarrow> groups \<Rightarrow> (string \<times> groups) list" where
  "matches (Lit l) s g = (if take (length l) s = l then [(drop (length l) s, g)] else [])"
| "matches (Star c) s g = map (\<lambda>(m, r). (r, g)) (runs (in_class c) s)"
| "matches (Plus c) s g =
     map (\<lambda>(m, r). (r, g)) (filter (\<lambda>(m, r). m \<noteq> []) (runs (in_class c) s))"
| "matches (Grp n r) s g =
     map (\<lambda>(rest, g'). (rest, g'(n \<mapsto> take (length s - length rest) s))) (matches r s g)"
| "matches (Opt r) s g = matches r s g @ [(s, g)]"
| "matches (Seq a b) s g = concat (map (\<lambda>(rest, g'). matches b rest g') (matches a s g))"

text \<open>The way the matcher finds first, if any.\<close>

definition first_match :: "regex \<Rightarrow> string \<Rightarrow> groups \<Rightarrow> (string \<times> groups) option" where
  "first_match r s g = (case matches r s g of [] \<Rightarrow> None | y # ys \<Rightarrow> Some y)"

fun search :: "regex \<Rightarrow> string \<Rightarrow> groups option" where
  "search r [] = map_option snd (first_match r [] (\<lambda>n. None))"
| "search r (x # xs) =
     (case first_match r (x # xs) (\<lambda>n. None) of
        None \<Rightarrow> search r xs
      | Some (rest, g) \<Rightarrow> Some g)"

text \<open>The groups that a pattern can set.\<close>

fun groups_of :: "regex \<Rightarrow> nat set" where
  "groups_of (Lit l) = {}"
| "groups_of (Star c) = {}"
| "groups_of (Plus c) = {}"
| "groups_of (Grp n r) = insert n (groups_of r)"
| "groups_of (Opt r) = groups_of r"
| "groups_of (Seq a b) = groups_of a \<union> groups_of b"

text \<open>A run of a class ends where the text ends or a character outside the class
  stands.\<close>

definition stops :: "(char \<Rightarrow> bool) \<Rightarrow> string \<Rightarrow> bool" where
  "stops p rest = (case rest of [] \<Rightarrow> True | x # xs \<Rightarrow> \<not> p x)"

text \<open>\<open>match.group(n)\<close>; the groups read by setup.py take part in every match of their
  pattern.\<close>

definition group :: "groups \<Rightarrow> nat \<Rightarrow> string" where
  "group g n = (case g n of Some t \<Rightarrow> t | None \<Rightarrow> [])"

text \<open>\<^verbatim>\<open>{% set version = ".*" %}\<close>\<close>

definition meta_pattern :: regex where
  "meta_pattern =
     Seq (Lit (''{% set version = '' @ [dq])) (Seq (Star Any) (Lit (dq # '' %}'')))"

text \<open>\<^verbatim>\<open>([\w\d\.]+)-(\d+)-g([\w\d]+)(?:-(dirty))?\<close>\<close>

definition describe_pattern :: regex where
  "describe_pattern =
     Seq (Grp 1 (Plus (Union W (Union D (Ch CHR ''.'')))))
    (Seq (Lit ''-'')
    (Seq (Grp 2 (Plus D))
    (Seq (Lit ''-g'')
    (Seq (Grp 3 (Plus (Union W D)))
         (Opt (Seq (Lit ''-'') (Grp 4 (Lit ''dirty''))))))))"

text \<open>\<^verbatim>\<open>\s+result = "(.*)"\<close>\<close>

definition result_pattern :: regex where
  "result_pattern =
     Seq (Plus S) (Seq (Lit (''result = '' @ [dq])) (Seq (Grp 1 (Star Any)) (Lit [dq])))"

text \<open>\<^verbatim>\<open>([\w\d]+)(?:-(dirty))?\<close>\<close>

definition hash_pattern :: regex where
  "hash_pattern =
     Seq (Grp 1 (Plus (Union W D))) (Opt (Seq (Lit ''-'') (Grp 2 (Lit ''dirty''))))"

text \<open>\<^verbatim>\<open>(\w+)\s+=\s+(.*)\<close>\<close>

definition conf_pattern :: regex where
  "conf_pattern =
     Seq (Grp 1 (Plus W)) (Seq (Plus S) (Seq (Lit ''='') (Seq (Plus S) (Grp 2 (Star Any)))))"

section \<open>Dates\<close>

record date =
  year :: int
  month :: int
  day :: int

text \<open>The civil date of a day number counted from 1970-01-01 (proleptic Gregorian
  calendar, as \<open>datetime\<close> has it).\<close>

definition civil_from_days :: "int \<Rightarrow> date" where
  "civil_from_days z0 =
     (let z = z0 + 719468;
          era = z div 146097;
          doe = z - era * 146097;
          yoe = (doe - doe div 1460 + doe div 36524 - doe div 146096) div 365;
          doy = doe - (365 * yoe + yoe div 4 - yoe div 100);
          mp = (5 * doy + 2) div 153;
          d = doy - (153 * mp + 2) div 5 + 1;
          m = (if mp < 10 then mp + 3 else mp - 9)
      in \<lparr>year = yoe + era * 400 + (if m \<le> 2 then 1 else 0), month = m, day = d\<rparr>)"

text \<open>\<open>datetime.datetime.utcfromtimestamp(t)\<close>, of which setup.py reads the date.\<close>

definition utcfromtimestamp :: "int \<Rightarrow> exn + date" where
  "utcfromtimestamp t =
     (let d = civil_from_days (t div 86400)
      in if 1 \<le> year d \<and> year d \<le> 9999 then Inr d
         else Inl (Exn ValueError (''year '' @ show_int (year d) @ '' is out of range'')))"

definition month_name :: "int \<Rightarrow> string" where
  "month_name m =
     [''January'', ''February'', ''March'', ''April'', ''May'', ''June'', ''July'',
      ''August'', ''September'', ''October'', ''November'', ''December''] ! nat (m - 1)"

text \<open>\<open>date.strftime("%d %B %Y")\<close> in the C locale.\<close>

definition strftime_dBY :: "date \<Rightarrow> string" where
  "strftime_dBY d =
     (if day d < 10 then ''0'' else []) @ show_int (day d) @ '' '' @ month_name (month d)
     @ '' '' @ show_int (year d)"

section \<open>The host and the file system\<close>

text \<open>
  What setup.py asks of its surroundings.  The host answers and does not change during a
  run: the output of a shell command, whether a spawned command exits with status 0, the
  interpreter's prefix and path, the platform, the processor count, and whether
  \<open>import conda\<close> succeeds.  The world changes: the files and directories (by absolute
  path), the working directory, and the external commands run so far.
\<close>

record host =
  shell :: "string \<Rightarrow> string"
  spawn_ok :: "string list \<Rightarrow> bool"
  sys_prefix :: string
  sys_executable :: string
  platform_system :: string
  os_cpu_count :: "nat option"
  conda_importable :: bool

datatype node = File string | Dir

datatype cmd = Shell string | Spawn "string list"

record world =
  fs :: "string \<rightharpoonup> node"
  cwd :: string
  ran :: "cmd list"

text \<open>\<open>os.path.join\<close>, \<open>os.path.dirname\<close> and \<open>os.path.isabs\<close> of posixpath.\<close>

fun join2 :: "string \<Rightarrow> string \<Rightarrow> string" where
  "join2 path b =
     (if take 1 b = ''/'' then b
      else if path = [] \<or> last path = CHR ''/'' then path @ b
      else path @ ''/'' @ b)"

definition os_path_join :: "string \<Rightarrow> string list \<Rightarrow> string" where
  "os_path_join a p = foldl join2 a p"

definition os_path_dirname :: "string \<Rightarrow> string" where
  "os_path_dirname p =
     (let head = rev (dropWhile (\<lambda>c. c \<noteq> CHR ''/'') (rev p))
      in if head \<noteq> [] \<and> \<not> list_all (\<lambda>c. c = CHR ''/'') head
         then rev (dropWhile (\<lambda>c. c = CHR ''/'') (rev head)) else head)"

definition isabs :: "string \<Rightarrow> bool" where
  "isabs p = (take 1 p = ''/'')"

definition os_path_exists :: "world \<Rightarrow> string \<Rightarrow> bool" where
  "os_path_exists w p = (fs w p \<noteq> None)"

definition os_error :: "string \<Rightarrow> exn_class \<Rightarrow> exn" where
  "os_error p k =
     Exn k ((if k = FileNotFoundError then ''[Errno 2] No such file or directory: ''
             else if k = IsADirectoryError then ''[Errno 21] Is a directory: ''
             else if k = NotADirectoryError then ''[Errno 20] Not a directory: ''
             else ''[Errno 17] File exists: '') @ py_repr p)"

text \<open>\<open>open(p, "r")\<close> followed by reading the whole text.\<close>

definition open_read :: "string \<Rightarrow> world \<Rightarrow> exn + string" where
  "open_read p w =
     (case fs w p of
        None \<Rightarrow> Inl (os_error p FileNotFoundError)
      | Some Dir \<Rightarrow> Inl (os_error p IsADirectoryError)
      | Some (File t) \<Rightarrow> Inr t)"

text \<open>\<open>open(p, "w")\<close> followed by writing the text \<open>t\<close>: a new file needs its
  directory.\<close>

definition open_write :: "string \<Rightarrow> string \<Rightarrow> world \<Rightarrow> (exn + unit) \<times> world" where
  "open_write p t w =
     (case fs w p of
        Some Dir \<Rightarrow> (Inl (os_error p IsADirectoryError), w)
      | Some (File old) \<Rightarrow> (Inr (), w\<lparr>fs := (fs w)(p \<mapsto> File t)\<rparr>)
      | None \<Rightarrow>
          (case fs w (os_path_dirname p) of
             Some Dir \<Rightarrow> (Inr (), w\<lparr>fs := (fs w)(p \<mapsto> File t)\<rparr>)
           | Some (File other) \<Rightarrow> (Inl (os_error p NotADirectoryError), w)
           | None \<Rightarrow> (Inl (os_error p FileNotFoundError), w)))"

section \<open>Version resolution (setup.py, lines 27-125)\<close>

definition execute :: "host \<Rightarrow> string \<Rightarrow> world \<Rightarrow> string \<times> world" where
  "execute h c w = (shell h c, w\<lparr>ran := ran w @ [Shell c]\<rparr>)"

definition update_meta :: "string \<Rightarrow> string \<Rightarrow> world \<Rightarrow> (exn + unit) \<times> world" where
  "update_meta path version w =
     (case open_read path w of
        Inl e \<Rightarrow> (Inl e, w)
      | Inr text \<Rightarrow>
          open_write path
            (concat (map (\<lambda>line. if search meta_pattern line \<noteq> None
                                  then ''{% set version = '' @ [dq] @ version @ [dq] @ '' %}'' @ [nl]
                                  else line)
                         (readlines text))) w)"

definition describe_cmd :: string where
  "describe_cmd = ''git describe --tags --dirty --long --always''"

definition log_cmd :: "string \<Rightarrow> string" where
  "log_cmd sha1 = ''git log  '' @ sha1 @ '' -1 --format='' @ [dq] @ ''%H %at'' @ [dq]"

text \<open>Lines 62-69: the version kept in the generated module, read back line by line.\<close>

fun scan_result :: "string list \<Rightarrow> exn + string" where
  "scan_result [] = Inl (Exn AssertionError [])"
| "scan_result (line # rest) =
     (case search result_pattern line of
        Some m \<Rightarrow> Inr (group m 1)
      | None \<Rightarrow> scan_result rest)"

definition recover_version :: "string \<Rightarrow> world \<Rightarrow> (exn + string) \<times> world" where
  "recover_version module w =
     (case open_read module w of
        Inl e \<Rightarrow> (Inl e, w)
      | Inr text \<Rightarrow> (scan_result (readlines text), w))"

text \<open>Lines 57-58 and 71-79: the version and the hash that a non-empty describe output
  gives.  With neither pattern found, \<open>match\<close> is \<open>None\<close> and \<open>match.group\<close> raises.\<close>

definition parse_describe :: "string \<Rightarrow> exn + string \<times> string" where
  "parse_describe stdout =
     (case search describe_pattern stdout of
        None \<Rightarrow>
          (case search hash_pattern stdout of
             None \<Rightarrow> Inl (Exn AttributeError
                      (sq # ''NoneType'' @ [sq] @ '' object has no attribute '' @ sq # ''group'' @ [sq]))
           | Some m \<Rightarrow> Inr (''0.1'', group m 1))
      | Some m \<Rightarrow> Inr (group m 1, group m 3))"

text \<open>Lines 82-83: the commit date in the output of git log.\<close>

definition commit_date :: "string \<Rightarrow> exn + date" where
  "commit_date out =
     (case split (strip out) of
        a # b # rest \<Rightarrow>
          (case py_int b of Inl e \<Rightarrow> Inl e | Inr t \<Rightarrow> utcfromtimestamp t)
      | _ \<Rightarrow> Inl (Exn IndexError ''list index out of range''))"

text \<open>Lines 95-105: one line of the documentation configuration.\<close>

definition conf_line :: "string \<Rightarrow> date \<Rightarrow> string \<Rightarrow> string" where
  "conf_line version d line =
     (case search conf_pattern line of
        None \<Rightarrow> line
      | Some m \<Rightarrow>
          if group m 1 = ''version'' then ''version = '' @ py_repr version @ [nl]
          else if group m 1 = ''release'' then ''release = '' @ py_repr version @ [nl]
          else if group m 1 = ''copyright''
               then ''copyright = '' @ [sq] @ ''('' @ show_int (year d) @ '', CNES/CLS)'' @ [sq, nl]
          else line)"


text \<open>Lines 93-108: the text read, rewritten line by line, and written back.\<close>

definition rewrite_conf :: "string \<Rightarrow> date \<Rightarrow> string \<Rightarrow> string" where
  "rewrite_conf version d text = concat (map (conf_line version d) (readlines text))"

definition update_conf :: "string \<Rightarrow> string \<Rightarrow> date \<Rightarrow> world \<Rightarrow> (exn + unit) \<times> world" where
  "update_conf conf version d w =
     (case open_read conf w of
        Inl e \<Rightarrow> (Inl e, w)
      | Inr text \<Rightarrow> open_write conf (rewrite_conf version d text) w)"

text \<open>Lines 112-124: the generated module, line by line.\<close>

definition version_module_lines :: "string \<Rightarrow> date \<Rightarrow> string list" where
  "version_module_lines version d =
     [[dq, dq, dq, nl],
      ''Get software version information'' @ [nl],
      ''================================'' @ [nl],
      [dq, dq, dq, nl],
      [nl],
      [nl],
      ''def release(full: bool = False) -> str:'' @ [nl],
      ''    '' @ [dq, dq, dq] @ ''Returns the software version number'' @ [dq, dq, dq, nl],
      ''    result = '' @ [dq] @ version @ [dq, nl],
      ''    if full:'' @ [nl],
      ''        result += '' @ [dq] @ '' ('' @ strftime_dBY d @ '')'' @ [dq, nl],
      ''    return result'' @ [nl]]"

definition revision :: "host \<Rightarrow> world \<Rightarrow> (exn + string) \<times> world" where
  "revision h w0 =
     (let module = os_path_join (cwd w0) [''src'', ''pytide'', ''version.py''];
          (out, w1) = execute h describe_cmd w0;
          stdout = strip out
      in if stdout = [] then recover_version module w1
         else
           (case parse_describe stdout of
              Inl e \<Rightarrow> (Inl e, w1)
            | Inr (version, sha1) \<Rightarrow>
                (let (out2, w2) = execute h (log_cmd sha1) w1
                 in case commit_date out2 of
                      Inl e \<Rightarrow> (Inl e, w2)
                    | Inr d \<Rightarrow>
                        (let meta = os_path_join (cwd w0) [''conda'', ''meta.yaml''];
                             (r3, w3) = (if os_path_exists w2 meta then update_meta meta version w2
                                         else (Inr (), w2))
                         in case r3 of
                              Inl e \<Rightarrow> (Inl e, w3)
                            | Inr u3 \<Rightarrow>
                                (let conf = os_path_join (cwd w0) [''docs'', ''source'', ''conf.py''];
                                     (r4, w4) = update_conf conf version d w3
                                 in case r4 of
                                      Inl e \<Rightarrow> (Inl e, w4)
                                    | Inr u4 \<Rightarrow>
                                        (let (r5, w5) =
                                               open_write module
                                                 (concat (version_module_lines version d)) w4
                                         in case r5 of
                                              Inl e \<Rightarrow> (Inl e, w5)
                                            | Inr u5 \<Rightarrow> (Inr version, w5)))))))"

section \<open>The native build (setup.py, lines 135-262)\<close>

text \<open>
  The \<open>BuildExt\<close> command object: the two class attributes that \<open>Build.run\<close> sets, and
  what distutils gives the command (\<open>build_temp\<close> as \<open>pathlib\<close> prints it, the flags, and
  \<open>get_ext_fullpath\<close>).
\<close>

record build_ext =
  CXX_COMPILER :: "string option"
  EIGEN3_INCLUDE_DIR :: "string option"
  build_temp :: string
  debug :: bool
  verbose :: bool
  dry_run :: bool
  get_ext_fullpath :: "string \<Rightarrow> string"

text \<open>The options of the \<open>Build\<close> command, and \<open>Build.run\<close> handing them to \<open>BuildExt\<close>.\<close>

record build_options =
  cxx_compiler :: "string option"
  eigen_root :: "string option"

definition build_run :: "build_options \<Rightarrow> build_ext \<Rightarrow> build_ext" where
  "build_run opts b =
     (let b1 = (case cxx_compiler opts of Some c \<Rightarrow> b\<lparr>CXX_COMPILER := Some c\<rparr> | None \<Rightarrow> b)
      in case eigen_root opts of Some d \<Rightarrow> b1\<lparr>EIGEN3_INCLUDE_DIR := Some d\<rparr> | None \<Rightarrow> b1)"

definition eigen :: "host \<Rightarrow> world \<Rightarrow> exn + string" where
  "eigen h w =
     (let eigen_include_dir = os_path_join (sys_prefix h) [''include'', ''eigen3'']
      in if os_path_exists w eigen_include_dir
         then Inr (''-DEIGEN3_INCLUDE_DIR='' @ eigen_include_dir)
         else
           (let eigen_include_dir1 = os_path_join (sys_prefix h) [''Library'', ''include'', ''eigen3''];
                eigen_include_dir2 = (if \<not> os_path_exists w eigen_include_dir1
                                      then os_path_dirname eigen_include_dir1
                                      else eigen_include_dir1)
            in if \<not> os_path_exists w eigen_include_dir2
               then Inl (Exn RuntimeError
                      ''Unable to find the Eigen3 library in the conda distribution used.'')
               else Inr (''-DEIGEN3_INCLUDE_DIR='' @ eigen_include_dir2)))"

definition is_conda :: "host \<Rightarrow> world \<Rightarrow> bool" where
  "is_conda h w =
     (let result = os_path_exists w (os_path_join (sys_prefix h) [''conda-meta''])
      in if \<not> result then conda_importable h else result)"

definition set_cmake_user_options :: "host \<Rightarrow> build_ext \<Rightarrow> world \<Rightarrow> exn + string list" where
  "set_cmake_user_options h b w =
     (let conda = is_conda h w;
          result = (case CXX_COMPILER b of
                      Some c \<Rightarrow> [''-DCMAKE_CXX_COMPILER='' @ c]
                    | None \<Rightarrow> [])
      in case EIGEN3_INCLUDE_DIR b of
           Some d \<Rightarrow> Inr (result @ [''-DEIGEN3_INCLUDE_DIR='' @ d])
         | None \<Rightarrow>
             if conda then (case eigen h w of Inl e \<Rightarrow> Inl e | Inr a \<Rightarrow> Inr (result @ [a]))
             else Inr result)"

text \<open>A relative path names a place under the working directory.\<close>

definition absolute :: "world \<Rightarrow> string \<Rightarrow> string" where
  "absolute w p = (if isabs p then p else os_path_join (cwd w) [p])"

text \<open>The directories above a path, the root apart: the path up to each of its
  separators.\<close>

fun ancestors_from :: "string \<Rightarrow> string \<Rightarrow> string list" where
  "ancestors_from pre [] = []"
| "ancestors_from pre (c # cs) =
     (if c = CHR ''/'' \<and> pre \<noteq> [] \<and> last pre \<noteq> CHR ''/''
      then pre # ancestors_from (pre @ [c]) cs
      else ancestors_from (pre @ [c]) cs)"

definition ancestors :: "string \<Rightarrow> string list" where
  "ancestors p = ancestors_from [] p"

text \<open>\<open>Path.mkdir(parents=True, exist_ok=True)\<close>: every missing directory above the path
  is made, then the path; an existing directory is left alone.  A regular file above the
  path is \<open>NotADirectoryError\<close>, a regular file in its place \<open>FileExistsError\<close>.\<close>

definition is_file :: "node option \<Rightarrow> bool" where
  "is_file n = (case n of Some (File t) \<Rightarrow> True | _ \<Rightarrow> False)"

definition mkdir :: "string \<Rightarrow> world \<Rightarrow> (exn + unit) \<times> world" where
  "mkdir p w =
     (let q = absolute w p
      in if \<exists>a \<in> set (ancestors q). is_file (fs w a)
         then (Inl (os_error p NotADirectoryError), w)
         else
           (case fs w q of
              Some (File t) \<Rightarrow> (Inl (os_error p FileExistsError), w)
            | _ \<Rightarrow> (Inr (), w\<lparr>fs := (\<lambda>x. if x \<in> set (ancestors q) \<or> x = q then Some Dir
                                            else fs w x)\<rparr>)))"

definition chdir :: "string \<Rightarrow> world \<Rightarrow> (exn + unit) \<times> world" where
  "chdir p w =
     (case fs w (absolute w p) of
        Some Dir \<Rightarrow> (Inr (), w\<lparr>cwd := absolute w p\<rparr>)
      | Some (File t) \<Rightarrow> (Inl (os_error p NotADirectoryError), w)
      | None \<Rightarrow> (Inl (os_error p FileNotFoundError), w))"

text \<open>\<open>Command.spawn\<close> of distutils: nothing is run in a dry run; a command that exits
  with another status than 0 raises \<open>DistutilsExecError\<close>.\<close>

definition spawn :: "host \<Rightarrow> build_ext \<Rightarrow> string list \<Rightarrow> world \<Rightarrow> (exn + unit) \<times> world" where
  "spawn h b c w =
     (if dry_run b then (Inr (), w)
      else if spawn_ok h c then (Inr (), w\<lparr>ran := ran w @ [Spawn c]\<rparr>)
      else (Inl (Exn DistutilsExecError (''command '' @ py_repr (concat (take 1 c)) @ '' failed'')),
            w\<lparr>ran := ran w @ [Spawn c]\<rparr>))"

definition upper :: "string \<Rightarrow> string" where
  "upper s = map (\<lambda>c. if 97 \<le> code c \<and> code c \<le> 122 then char_of (code c - 32) else c) s"

text \<open>Lines 207-233: the arguments of the configure and of the build command, or the
  \<open>TypeError\<close> of \<open>'-j%d' % None\<close>.\<close>

definition cmake_arguments ::
  "host \<Rightarrow> build_ext \<Rightarrow> string \<Rightarrow> string list \<Rightarrow> exn + string list \<times> string list" where
  "cmake_arguments h b extdir user_options =
     (let cfg = (if debug b then ''Debug'' else ''Release'');
          cmake_args = [''-DCMAKE_LIBRARY_OUTPUT_DIRECTORY='' @ extdir,
                        ''-DPYTHON_EXECUTABLE='' @ sys_executable h] @ user_options;
          build_args = [''--config'', cfg];
          r = (if platform_system h \<noteq> ''Windows''
               then (case os_cpu_count h of
                       None \<Rightarrow> Inl (Exn TypeError ''%d format: a number is required, not NoneType'')
                     | Some n \<Rightarrow>
                         Inr (cmake_args @ [''-DCMAKE_BUILD_TYPE='' @ cfg]
                                @ (if platform_system h = ''Darwin''
                                   then [''-DCMAKE_OSX_DEPLOYMENT_TARGET=10.14''] else []),
                              build_args @ [''--'', ''-j'' @ show_nat n]))
               else Inr (cmake_args @ [''-G'', ''Visual Studio 15 2017'',
                                       ''-DCMAKE_GENERATOR_PLATFORM=x64'',
                                       ''-DCMAKE_LIBRARY_OUTPUT_DIRECTORY_'' @ upper cfg @ ''=''
                                         @ extdir],
                         build_args @ [''--'', ''/m'']
                           @ (if verbose b then [''/verbosity:n''] else [])))
      in case r of
           Inl e \<Rightarrow> Inl e
         | Inr (cmake_args1, build_args1) \<Rightarrow>
             Inr (cmake_args1, if verbose b then ''--verbose'' # build_args1 else build_args1))"

definition build_cmake :: "host \<Rightarrow> build_ext \<Rightarrow> string \<Rightarrow> world \<Rightarrow> (exn + unit) \<times> world" where
  "build_cmake h b name w0 =
     (let dir = cwd w0;
          (r1, w1) = mkdir (build_temp b) w0
      in case r1 of
           Inl e \<Rightarrow> (Inl e, w1)
         | Inr u1 \<Rightarrow>
             (let extdir = os_path_dirname (absolute w1 (get_ext_fullpath b name))
              in case set_cmake_user_options h b w1 of
                   Inl e \<Rightarrow> (Inl e, w1)
                 | Inr user_options \<Rightarrow>
                     (case cmake_arguments h b extdir user_options of
                        Inl e \<Rightarrow> (Inl e, w1)
                      | Inr (cmake_args, build_args) \<Rightarrow>
                          (let (r2, w2) = chdir (build_temp b) w1
                           in case r2 of
                                Inl e \<Rightarrow> (Inl e, w2)
                              | Inr u2 \<Rightarrow>
                                  (let (r3, w3) = spawn h b ([''cmake'', dir] @ cmake_args) w2
                                   in case r3 of
                                        Inl e \<Rightarrow> (Inl e, w3)
                                      | Inr u3 \<Rightarrow>
                                          (let (r4, w4) =
                                                 (if \<not> dry_run b
                                                  then spawn h b
                                                         ([''cmake'', ''--build'', ''.'', ''--target'',
                                                           ''core''] @ build_args) w3
                                                  else (Inr (), w3))
                                           in case r4 of
                                                Inl e \<Rightarrow> (Inl e, w4)
                                              | Inr u4 \<Rightarrow> chdir dir w4))))))"

section \<open>The interpreter gate (setup.py, lines 20-24)\<close>

definition check_python :: "int \<Rightarrow> int \<Rightarrow> exn + unit" where
  "check_python MAJOR MINOR =
     (if \<not> (MAJOR \<ge> 3 \<and> MINOR \<ge> 6)
      then Inl (Exn RuntimeError (''Python '' @ show_int MAJOR @ ''.'' @ show_int MINOR
                  @ '' is not supported, you need at least Python 3.6.''))
      else Inr ())"

section \<open>Sample hosts and trees\<close>

text \<open>A conda interpreter under \<open>/c\<close> on Linux whose external commands all succeed, or
  all fail, and one on which only the build command fails; an extension built in \<open>build/t\<close>; a source tree \<open>/p\<close> beside a prefix that
  has \<open>Library/include\<close> but no \<open>eigen3\<close> directory.\<close>

definition conda_host :: "bool \<Rightarrow> host" where
  "conda_host ok = \<lparr>shell = (\<lambda>c. []), spawn_ok = (\<lambda>c. ok), sys_prefix = ''/c'',
      sys_executable = ''/c/bin/python'', platform_system = ''Linux'', os_cpu_count = Some 4,
      conda_importable = True\<rparr>"

definition build_fails_host :: host where
  "build_fails_host =
     (conda_host True)\<lparr>spawn_ok := (\<lambda>c. take 2 c \<noteq> [''cmake'', ''--build''])\<rparr>"

definition plain_ext :: build_ext where
  "plain_ext = \<lparr>CXX_COMPILER = None, EIGEN3_INCLUDE_DIR = None, build_temp = ''build/t'',
      debug = False, verbose = False, dry_run = False,
      get_ext_fullpath = (\<lambda>n. ''build/lib/pytide/core.so'')\<rparr>"

definition library_tree :: world where
  "library_tree =
     \<lparr>fs = [''/p'' \<mapsto> Dir, ''/c/Library/include'' \<mapsto> Dir], cwd = ''/p'', ran = []\<rparr>"

text \<open>A plain interpreter on a host where git prints \<open>describe\<close> for the describe command
  and \<open>log\<close> for every other one; source trees under \<open>/p\<close> with and without the
  documentation configuration, and one whose generated module holds no version.\<close>

definition git_host :: "string \<Rightarrow> string \<Rightarrow> host" where
  "git_host describe log =
     \<lparr>shell = (\<lambda>c. if c = describe_cmd then describe else log), spawn_ok = (\<lambda>c. True),
      sys_prefix = ''/usr'', sys_executable = ''/usr/bin/python3'', platform_system = ''Linux'',
      os_cpu_count = Some 4, conda_importable = False\<rparr>"

definition source_tree :: world where
  "source_tree =
     \<lparr>fs = [''/p'' \<mapsto> Dir, ''/p/src/pytide'' \<mapsto> Dir,
            ''/p/docs/source/conf.py'' \<mapsto> File (''version = 1'' @ [nl])],
      cwd = ''/p'', ran = []\<rparr>"

definition tree_without_conf :: world where
  "tree_without_conf =
     \<lparr>fs = [''/p'' \<mapsto> Dir, ''/p/src/pytide'' \<mapsto> Dir], cwd = ''/p'', ran = []\<rparr>"

definition stale_tree :: world where
  "stale_tree =
     \<lparr>fs = [''/p'' \<mapsto> Dir, ''/p/src/pytide'' \<mapsto> Dir,
            ''/p/src/pytide/version.py'' \<mapsto> File (''x = 1'' @ [nl])],
      cwd = ''/p'', ran = []\<rparr>"




definition bare_tree :: world where
  "bare_tree = \<lparr>fs = [''/p'' \<mapsto> Dir], cwd = ''/p'', ran = []\<rparr>"

section \<open>Properties\<close>

subsection \<open>The matcher\<close>

lemma runs_sound: "(m, r) \<in> set (runs p s) \<Longrightarrow> s = m @ r \<and> list_all p m"
  by (induction s arbitrary: m r) (auto split: if_splits)

lemma runs_prefix:
  "list_all p m \<Longrightarrow> \<exists>t. runs p (m @ rest) = map (\<lambda>(a, r). (m @ a, r)) (runs p rest) @ t"
proof (induction m)
  case Nil
  then show ?case by simp
next
  case (Cons x m)
  then obtain t where "runs p (m @ rest) = map (\<lambda>(a, r). (m @ a, r)) (runs p rest) @ t"
    by auto
  with Cons.prems show ?case
    by (auto simp: case_prod_unfold)
qed

lemma runs_stops: "stops p rest \<Longrightarrow> runs p rest = [([], rest)]"
  by (cases rest) (auto simp: stops_def)

lemma runs_maximal:
  "list_all p m \<Longrightarrow> stops p rest \<Longrightarrow> \<exists>t. runs p (m @ rest) = (m, rest) # t"
  using runs_prefix [of p m rest] by (auto simp: runs_stops)

lemma first_match_Lit: "first_match (Lit l) (l @ rest) g = Some (rest, g)"
  by (simp add: first_match_def)

lemma first_match_Plus:
  "list_all (in_class c) m \<Longrightarrow> m \<noteq> [] \<Longrightarrow> stops (in_class c) rest \<Longrightarrow>
   first_match (Plus c) (m @ rest) g = Some (rest, g)"
  using runs_maximal [of "in_class c" m rest] by (auto simp: first_match_def)

lemma first_match_Star:
  "list_all (in_class c) m \<Longrightarrow> stops (in_class c) rest \<Longrightarrow>
   first_match (Star c) (m @ rest) g = Some (rest, g)"
  using runs_maximal [of "in_class c" m rest] by (auto simp: first_match_def)

lemma first_match_Grp:
  "first_match r (m @ rest) g = Some (rest, g') \<Longrightarrow>
   first_match (Grp n r) (m @ rest) g = Some (rest, g'(n \<mapsto> m))"
  by (auto simp: first_match_def split: list.splits)

lemma first_match_Seq:
  "first_match a s g = Some (r1, g1) \<Longrightarrow> first_match b r1 g1 = Some y \<Longrightarrow>
   first_match (Seq a b) s g = Some y"
  by (auto simp: first_match_def split: list.splits)

lemma first_match_Opt:
  "first_match (Opt r) s g = (case first_match r s g of None \<Rightarrow> Some (s, g) | Some y \<Rightarrow> Some y)"
  by (auto simp: first_match_def split: list.splits)

lemma search_first:
  "first_match r s (\<lambda>n. None) = Some (rest, g) \<Longrightarrow> search r s = Some g"
  by (cases s) auto

lemma matches_frame:
  "(rest, g') \<in> set (matches r s g) \<Longrightarrow> n \<notin> groups_of r \<Longrightarrow> g' n = g n"
proof (induction r arbitrary: s g rest g')
  case (Seq a b)
  then obtain r1 g1 where "(r1, g1) \<in> set (matches a s g)" "(rest, g') \<in> set (matches b r1 g1)"
    by auto
  with Seq.IH [of _ _ _ _] Seq.prems(2) show ?case
    by (metis UnCI groups_of.simps(6))
qed (auto split: if_splits)

lemma matches_suffix:
  "(rest, g') \<in> set (matches r s g) \<Longrightarrow> \<exists>m. s = m @ rest"
proof (induction r arbitrary: s g rest g')
  case (Lit l)
  then show ?case by (auto split: if_splits) (metis append_take_drop_id)
next
  case (Star c) then show ?case by (auto dest: runs_sound)
next
  case (Plus c) then show ?case by (auto dest: runs_sound)
next
  case (Grp n r) then show ?case by auto
next
  case (Opt r) then show ?case by auto
next
  case (Seq a b)
  then obtain r1 g1 where "(r1, g1) \<in> set (matches a s g)" "(rest, g') \<in> set (matches b r1 g1)"
    by auto
  with Seq.IH show ?case by (metis append.assoc)
qed

lemma first_match_in_matches:
  "first_match r s g = Some y \<Longrightarrow> y \<in> set (matches r s g)"
  by (auto simp: first_match_def split: list.splits)

lemma search_in_matches:
  "search r s = Some g \<Longrightarrow> \<exists>s' rest. (rest, g) \<in> set (matches r s' (\<lambda>n. None))"
proof (induction s)
  case Nil
  then show ?case by (auto dest!: first_match_in_matches)
next
  case (Cons x xs)
  then show ?case
    by (auto split: option.splits dest!: first_match_in_matches)
qed

lemma describe_group1:
  assumes "search describe_pattern s = Some g"
  shows "\<exists>t. g 1 = Some t \<and> t \<noteq> [] \<and> list_all (in_class (Union W (Union D (Ch CHR ''.'')))) t"
proof -
  obtain s' rest where m: "(rest, g) \<in> set (matches describe_pattern s' (\<lambda>n. None))"
    using search_in_matches [OF assms] by blast
  let ?c = "Union W (Union D (Ch CHR ''.''))"
  let ?R = "Seq (Lit ''-'') (Seq (Grp 2 (Plus D)) (Seq (Lit ''-g'')
              (Seq (Grp 3 (Plus (Union W D))) (Opt (Seq (Lit ''-'') (Grp 4 (Lit ''dirty'')))))))"
  from m obtain r1 g1 where a: "(r1, g1) \<in> set (matches (Grp 1 (Plus ?c)) s' (\<lambda>n. None))"
    and b: "(rest, g) \<in> set (matches ?R r1 g1)"
    by (auto simp: describe_pattern_def simp del: matches.simps(3,4) in_class.simps)
  from a obtain t where t: "(t, r1) \<in> set (runs (in_class ?c) s')" "t \<noteq> []"
    "g1 = (\<lambda>n. None)(1 \<mapsto> take (length s' - length r1) s')"
    by (auto simp del: in_class.simps)
  from runs_sound [OF t(1)] have "s' = t @ r1" "list_all (in_class ?c) t" by simp_all
  then have "g1 1 = Some t" using t(3) by simp
  moreover have "g 1 = g1 1"
    using matches_frame [OF b, of 1] by simp
  ultimately show ?thesis using t(2) \<open>list_all (in_class ?c) t\<close> by auto
qed

lemma word_or_digit [simp]: "(is_word c \<or> is_digit c) = is_word c"
  by (auto simp: is_word_def)

lemma not_word_not_digit [simp]: "\<not> is_word c \<Longrightarrow> is_digit c = False"
  by (auto simp: is_word_def)

lemma not_word_minus [simp]: "\<not> is_word CHR ''-''" "\<not> is_digit CHR ''-''"
  by (simp_all add: is_word_def is_digit_def code_def)

lemma describe_match:
  assumes tag: "tag \<noteq> []" "list_all (in_class (Union W (Union D (Ch CHR ''.'')))) tag"
    and count: "count \<noteq> []" "list_all is_digit count"
    and hash: "hash \<noteq> []" "list_all is_word hash"
    and dirty: "dirty = [] \<or> dirty = ''-dirty''"
  shows "\<exists>g. search describe_pattern (tag @ ''-'' @ count @ ''-g'' @ hash @ dirty) = Some g
             \<and> g 1 = Some tag \<and> g 3 = Some hash"
proof -
  let ?c = "Union W (Union D (Ch CHR ''.''))"
  let ?g0 = "\<lambda>n::nat. None :: string option"
  let ?g1 = "?g0(1 \<mapsto> tag)"
  let ?g2 = "?g1(2 \<mapsto> count)"
  let ?g3 = "?g2(3 \<mapsto> hash)"
  let ?r1 = "''-'' @ count @ ''-g'' @ hash @ dirty"
  let ?r3 = "''-g'' @ hash @ dirty"
  have 1: "first_match (Grp 1 (Plus ?c)) (tag @ ?r1) ?g0 = Some (?r1, ?g1)"
    using tag by (intro first_match_Grp first_match_Plus) (simp_all add: stops_def)
  have 2: "first_match (Lit ''-'') ?r1 ?g1 = Some (count @ ?r3, ?g1)"
    using first_match_Lit [of "''-''"] by simp
  have 3: "first_match (Grp 2 (Plus D)) (count @ ?r3) ?g1 = Some (?r3, ?g2)"
    using count by (intro first_match_Grp first_match_Plus) (simp_all add: stops_def list_all_iff)
  have 4: "first_match (Lit ''-g'') ?r3 ?g2 = Some (hash @ dirty, ?g2)"
    using first_match_Lit [of "''-g''"] by simp
  have 5: "first_match (Grp 3 (Plus (Union W D))) (hash @ dirty) ?g2 = Some (dirty, ?g3)"
    using hash dirty
    by (intro first_match_Grp first_match_Plus) (auto simp: stops_def list_all_iff)
  have 6: "\<exists>g. first_match (Opt (Seq (Lit ''-'') (Grp 4 (Lit ''dirty'')))) dirty ?g3 = Some ([], g)
              \<and> g 1 = Some tag \<and> g 3 = Some hash"
    using dirty by (auto simp: first_match_def)
  then obtain g where g: "first_match (Opt (Seq (Lit ''-'') (Grp 4 (Lit ''dirty'')))) dirty ?g3 = Some ([], g)"
    "g 1 = Some tag" "g 3 = Some hash" by blast
  have "first_match describe_pattern (tag @ ?r1) ?g0 = Some ([], g)"
    unfolding describe_pattern_def
    by (rule first_match_Seq [OF 1] first_match_Seq [OF 2] first_match_Seq [OF 3]
        first_match_Seq [OF 4] first_match_Seq [OF 5] g(1))+
  then have "search describe_pattern (tag @ ?r1) = Some g"
    by (rule search_first)
  then show ?thesis using g(2,3) by auto
qed

lemma parse_describe_tagged:
  assumes "tag \<noteq> []" "list_all (in_class (Union W (Union D (Ch CHR ''.'')))) tag"
    and "count \<noteq> []" "list_all is_digit count"
    and "hash \<noteq> []" "list_all is_word hash"
    and "dirty = [] \<or> dirty = ''-dirty''"
  shows "parse_describe (tag @ ''-'' @ count @ ''-g'' @ hash @ dirty) = Inr (tag, hash)"
  using describe_match [OF assms] by (auto simp: parse_describe_def group_def)

lemma hash_match_here:
  assumes "is_word x"
  shows "\<exists>rest g. first_match hash_pattern (x # xs) (\<lambda>n. None) = Some (rest, g)
           \<and> g 1 = Some (takeWhile is_word (x # xs))"
proof -
  let ?m = "takeWhile is_word (x # xs)" and ?r = "dropWhile is_word (x # xs)"
  let ?g0 = "\<lambda>n::nat. None :: string option"
  have s: "x # xs = ?m @ ?r" by simp
  have st: "stops (in_class (Union W D)) ?r"
  proof (cases ?r)
    case Nil
    then show ?thesis by (simp add: stops_def)
  next
    case (Cons a list)
    then have "\<not> is_word a"
      using hd_dropWhile [of is_word "x # xs"] by (metis list.distinct(1) list.sel(1))
    then show ?thesis using Cons by (simp add: stops_def)
  qed
  have "first_match (Grp 1 (Plus (Union W D))) (?m @ ?r) ?g0 = Some (?r, ?g0(1 \<mapsto> ?m))"
    using assms st
    by (intro first_match_Grp first_match_Plus) (auto simp: list_all_iff dest: set_takeWhileD)
  then have 1: "first_match (Grp 1 (Plus (Union W D))) (x # xs) ?g0 = Some (?r, ?g0(1 \<mapsto> ?m))"
    using s by simp
  have "\<exists>rest g. first_match (Opt (Seq (Lit ''-'') (Grp 2 (Lit ''dirty'')))) ?r (?g0(1 \<mapsto> ?m))
           = Some (rest, g) \<and> g 1 = Some ?m"
    by (auto simp: first_match_def simp del: takeWhile.simps dropWhile.simps)
  then obtain rest g where
    2: "first_match (Opt (Seq (Lit ''-'') (Grp 2 (Lit ''dirty'')))) ?r (?g0(1 \<mapsto> ?m)) = Some (rest, g)"
    and g: "g 1 = Some ?m" by blast
  have "first_match hash_pattern (x # xs) ?g0 = Some (rest, g)"
    unfolding hash_pattern_def by (rule first_match_Seq [OF 1 2])
  then show ?thesis using g by blast
qed

lemma hash_no_match_here:
  "\<not> is_word x \<Longrightarrow> first_match hash_pattern (x # xs) g = None"
  by (simp add: first_match_def hash_pattern_def)

lemma hash_search:
  assumes "\<exists>c \<in> set s. is_word c"
  shows "\<exists>g. search hash_pattern s = Some g
           \<and> g 1 = Some (takeWhile is_word (dropWhile (\<lambda>c. \<not> is_word c) s))"
  using assms
proof (induction s)
  case Nil
  then show ?case by simp
next
  case (Cons x xs)
  show ?case
  proof (cases "is_word x")
    case True
    from hash_match_here [OF True, of xs] obtain rest g where
      "first_match hash_pattern (x # xs) (\<lambda>n. None) = Some (rest, g)"
      "g 1 = Some (takeWhile is_word (x # xs))" by blast
    then show ?thesis using True by simp
  next
    case False
    then show ?thesis using Cons by (simp add: hash_no_match_here)
  qed
qed

lemma hash_search_none:
  "\<forall>c \<in> set s. \<not> is_word c \<Longrightarrow> search hash_pattern s = None"
  by (induction s) (simp_all add: hash_no_match_here first_match_def hash_pattern_def)

lemma parse_describe_untagged:
  assumes "search describe_pattern s = None" and "\<exists>c \<in> set s. is_word c"
  shows "parse_describe s = Inr (''0.1'', takeWhile is_word (dropWhile (\<lambda>c. \<not> is_word c) s))"
  using hash_search [OF assms(2)] assms(1) by (auto simp: parse_describe_def group_def)

subsection \<open>Version resolution\<close>

lemma open_write_result:
  "open_write p t w = (r, w') \<Longrightarrow>
     ran w' = ran w \<and> cwd w' = cwd w \<and> (\<forall>q. q \<noteq> p \<longrightarrow> fs w' q = fs w q)
     \<and> (r = Inr () \<longrightarrow> fs w' p = Some (File t)) \<and> (\<forall>e. r = Inl e \<longrightarrow> w' = w)"
  by (auto simp: open_write_def split: option.splits node.splits)

lemma update_meta_result:
  "update_meta p v w = (r, w') \<Longrightarrow>
     ran w' = ran w \<and> cwd w' = cwd w \<and> (\<forall>q. q \<noteq> p \<longrightarrow> fs w' q = fs w q)"
  by (auto simp: update_meta_def split: sum.splits dest!: open_write_result)

lemma update_conf_result:
  "update_conf p v d w = (r, w') \<Longrightarrow>
     ran w' = ran w \<and> cwd w' = cwd w \<and> (\<forall>q. q \<noteq> p \<longrightarrow> fs w' q = fs w q)"
  by (auto simp: update_conf_def split: sum.splits dest!: open_write_result)




lemma revision_dev:
  assumes "strip (shell h describe_cmd) \<noteq> []"
    and "parse_describe (strip (shell h describe_cmd)) = Inr (v, sha)"
  shows "ran (snd (revision h w)) = ran w @ [Shell describe_cmd, Shell (log_cmd sha)]
         \<and> cwd (snd (revision h w)) = cwd w
         \<and> (\<forall>v'. fst (revision h w) = Inr v' \<longrightarrow> v' = v)"
  using assms
  by (auto simp: revision_def execute_def Let_def split: sum.splits prod.splits if_splits
      dest!: open_write_result update_meta_result update_conf_result)


text \<open>
  C5, as claimed: for every describe output \<open><tag>-<count>-g<hash>\<close>, dirty or not, the
  version is the tag and the hash is the hash.  It does not hold for every tag: the tag
  class of the pattern has no hyphen, and for the output \<open>v1-rc-3-gab\<close> of the tag
  \<open>v1-rc\<close> the version is \<open>rc\<close>.
\<close>

theorem tagged_describe_counterexample:
  "strip (shell (git_host (''v1-rc-3-gab'' @ [nl]) (''ab 1572566400'' @ [nl])) describe_cmd)
     = ''v1-rc'' @ ''-'' @ ''3'' @ ''-g'' @ ''ab''
   \<and> parse_describe (''v1-rc'' @ ''-'' @ ''3'' @ ''-g'' @ ''ab'') = Inr (''rc'', ''ab'')
   \<and> fst (revision (git_host (''v1-rc-3-gab'' @ [nl]) (''ab 1572566400'' @ [nl])) source_tree)
       = Inr ''rc''
   \<and> ''rc'' \<noteq> ''v1-rc''"
  by code_simp

text \<open>
  C5, amended: for every describe output \<open><tag>-<count>-g<hash>\<close>, with or without
  \<open>-dirty\<close> after it, in which the tag is made of word characters and dots, the count of
  digits and the hash of word characters (none of them empty), the version is the tag
  and the hash passed to git log is the hash: a run of \<open>revision\<close> issues the log command
  for that hash and, when it returns, returns the tag.  The dirty marker changes neither.
\<close>

theorem tagged_describe_resolves:
  assumes "tag \<noteq> []" and "\<forall>c \<in> set tag. is_word c \<or> c = CHR ''.''"
    and "count \<noteq> []" and "\<forall>c \<in> set count. is_digit c"
    and "hash \<noteq> []" and "\<forall>c \<in> set hash. is_word c"
    and "dirty = [] \<or> dirty = ''-dirty''"
    and "strip (shell h describe_cmd) = tag @ ''-'' @ count @ ''-g'' @ hash @ dirty"
  shows "parse_describe (strip (shell h describe_cmd)) = Inr (tag, hash)
         \<and> ran (snd (revision h w)) = ran w @ [Shell describe_cmd, Shell (log_cmd hash)]
         \<and> (\<forall>v. fst (revision h w) = Inr v \<longrightarrow> v = tag)"
proof -
  have p: "parse_describe (strip (shell h describe_cmd)) = Inr (tag, hash)"
    unfolding assms(8) using assms(1-7)
    by (intro parse_describe_tagged) (auto simp: list_all_iff)
  have "strip (shell h describe_cmd) \<noteq> []"
    using assms(1,8) by simp
  from revision_dev [OF this p, of w] p show ?thesis by simp
qed

theorem tagged_describe_resolves_witness:
  "parse_describe
      (strip (shell (git_host (''1.0-3-gab-dirty'' @ [nl]) (''ab 1572566400'' @ [nl])) describe_cmd))
     = Inr (''1.0'', ''ab'')
   \<and> ran (snd (revision (git_host (''1.0-3-gab-dirty'' @ [nl]) (''ab 1572566400'' @ [nl]))
                  source_tree))
       = [Shell describe_cmd, Shell (log_cmd ''ab'')]"
  using tagged_describe_resolves
          [of "''1.0''" "''3''" "''ab''" "''-dirty''"
              "git_host (''1.0-3-gab-dirty'' @ [nl]) (''ab 1572566400'' @ [nl])" source_tree]
  by (simp add: git_host_def strip_def is_space_def is_word_def is_digit_def code_def
      source_tree_def)

text \<open>
  C6, as claimed: every non-empty describe output that the tag pattern does not match
  gives the version 0.1 and a hash.  It does not hold for an output without any word
  character: the loose pattern finds nothing either and \<open>match.group\<close> raises
  AttributeError.
\<close>

theorem untagged_describe_counterexample:
  "strip (shell (git_host (''??'' @ [nl]) (''ab 1572566400'' @ [nl])) describe_cmd) = ''??''
   \<and> Option.is_none (search describe_pattern ''??'')
   \<and> fst (revision (git_host (''??'' @ [nl]) (''ab 1572566400'' @ [nl])) source_tree)
       = Inl (Exn AttributeError
               ([sq] @ ''NoneType'' @ [sq] @ '' object has no attribute '' @ [sq] @ ''group'' @ [sq]))"
  by code_simp

text \<open>
  C6, amended: for every describe output that the tag pattern does not match and that
  has a word character, the version is the bootstrap value 0.1 and the hash is the first
  run of word characters of the output (a \<open>-dirty\<close> after it is not part of it): a run
  of \<open>revision\<close> issues the log command for that hash and, when it returns, returns 0.1.
\<close>

theorem untagged_describe_bootstraps:
  assumes "search describe_pattern (strip (shell h describe_cmd)) = None"
    and "\<exists>c \<in> set (strip (shell h describe_cmd)). is_word c"
  shows "parse_describe (strip (shell h describe_cmd))
           = Inr (''0.1'', takeWhile is_word
                             (dropWhile (\<lambda>c. \<not> is_word c) (strip (shell h describe_cmd))))
         \<and> ran (snd (revision h w))
           = ran w @ [Shell describe_cmd,
                      Shell (log_cmd (takeWhile is_word
                               (dropWhile (\<lambda>c. \<not> is_word c) (strip (shell h describe_cmd)))))]
         \<and> (\<forall>v. fst (revision h w) = Inr v \<longrightarrow> v = ''0.1'')"
proof -
  have p: "parse_describe (strip (shell h describe_cmd))
           = Inr (''0.1'', takeWhile is_word
                             (dropWhile (\<lambda>c. \<not> is_word c) (strip (shell h describe_cmd))))"
    using assms by (rule parse_describe_untagged)
  have "strip (shell h describe_cmd) \<noteq> []"
    using assms(2) by auto
  from revision_dev [OF this p, of w] p show ?thesis by simp
qed

theorem untagged_describe_bootstraps_witness:
  "parse_describe
      (strip (shell (git_host (''abc123-dirty'' @ [nl]) (''ab 1572566400'' @ [nl])) describe_cmd))
     = Inr (''0.1'', ''abc123'')
   \<and> ran (snd (revision (git_host (''abc123-dirty'' @ [nl]) (''ab 1572566400'' @ [nl]))
                  source_tree))
       = [Shell describe_cmd, Shell (log_cmd ''abc123'')]"
proof -
  let ?h = "git_host (''abc123-dirty'' @ [nl]) (''ab 1572566400'' @ [nl])"
  have s: "strip (shell ?h describe_cmd) = ''abc123-dirty''"
    by (simp add: git_host_def strip_def is_space_def code_def)
  have n: "Option.is_none (search describe_pattern ''abc123-dirty'')"
    by code_simp
  have a: "search describe_pattern (strip (shell ?h describe_cmd)) = None"
    using n unfolding s by (simp add: Option.is_none_def)
  have b: "\<exists>c \<in> set (strip (shell ?h describe_cmd)). is_word c"
    unfolding s by (simp add: is_word_def is_digit_def code_def)
  show ?thesis
    using untagged_describe_bootstraps [OF a b, of source_tree]
    unfolding s by (simp add: is_word_def is_digit_def code_def source_tree_def)
qed

lemma scan_result_none:
  "\<forall>l \<in> set ls. search result_pattern l = None \<Longrightarrow> scan_result ls = Inl (Exn AssertionError [])"
  by (induction ls) simp_all

lemma revision_recover:
  "strip (shell h describe_cmd) = [] \<Longrightarrow>
   revision h w =
     recover_version (os_path_join (cwd w) [''src'', ''pytide'', ''version.py''])
       (w\<lparr>ran := ran w @ [Shell describe_cmd]\<rparr>)"
  by (simp add: revision_def execute_def Let_def)





lemma message_os_error: "message (os_error p k) \<noteq> []"
  by (simp add: os_error_def)

text \<open>
  C7, as claimed: without describe output and without a version in the generated module,
  \<open>revision\<close> fails with an error that carries a diagnostic message.  It does not hold
  for a module that holds no version: line 69 raises \<open>AssertionError()\<close>, without a
  message.
\<close>

theorem version_unavailable_counterexample:
  "strip (shell (git_host [] []) describe_cmd) = []
   \<and> fst (revision (git_host [] []) stale_tree) = Inl (Exn AssertionError [])
   \<and> message (Exn AssertionError []) = []"
  by code_simp

text \<open>
  C7, amended: without describe output, \<open>revision\<close> fails after the describe command and
  before anything is written or any other command is run: with FileNotFoundError, whose
  message names the path, when the generated module does not exist, and with an
  AssertionError that carries no message when no line of the module holds a version.
\<close>

theorem version_unavailable_is_fatal:
  assumes "strip (shell h describe_cmd) = []"
  shows "(fs w (os_path_join (cwd w) [''src'', ''pytide'', ''version.py'']) = None \<longrightarrow>
            revision h w
              = (Inl (os_error (os_path_join (cwd w) [''src'', ''pytide'', ''version.py''])
                        FileNotFoundError),
                 w\<lparr>ran := ran w @ [Shell describe_cmd]\<rparr>)
            \<and> message (os_error (os_path_join (cwd w) [''src'', ''pytide'', ''version.py''])
                        FileNotFoundError) \<noteq> [])
         \<and> (\<forall>t. fs w (os_path_join (cwd w) [''src'', ''pytide'', ''version.py'']) = Some (File t)
                 \<and> (\<forall>l \<in> set (readlines t). search result_pattern l = None) \<longrightarrow>
                revision h w
                  = (Inl (Exn AssertionError []), w\<lparr>ran := ran w @ [Shell describe_cmd]\<rparr>))"
  using assms
  by (auto simp: revision_recover recover_version_def open_read_def scan_result_none
      message_os_error)

theorem version_unavailable_is_fatal_witness:
  "fst (revision (git_host [] []) tree_without_conf)
     = Inl (os_error ''/p/src/pytide/version.py'' FileNotFoundError)
   \<and> ran (snd (revision (git_host [] []) tree_without_conf)) = [Shell describe_cmd]
   \<and> fst (revision (git_host [] []) stale_tree) = Inl (Exn AssertionError [])"
proof -
  have e: "strip (shell (git_host [] []) describe_cmd) = []"
    by code_simp
  have n: "list_all (\<lambda>l. Option.is_none (search result_pattern l)) (readlines (''x = 1'' @ [nl]))"
    by code_simp
  then have n': "\<forall>l \<in> set (readlines (''x = 1'' @ [nl])). search result_pattern l = None"
    by (simp add: list_all_iff Option.is_none_def)
  show ?thesis
    using version_unavailable_is_fatal [OF e, of tree_without_conf]
      version_unavailable_is_fatal [OF e, of stale_tree] n'
    by (simp add: tree_without_conf_def stale_tree_def os_path_join_def)
qed

lemma lines_from_line:
  "nl \<notin> set b \<Longrightarrow> cr \<notin> set b \<Longrightarrow>
   lines_from False (b @ nl # rest) = (b @ [nl]) # lines_from False rest"
  by (induction b) auto

lemma readlines_line:
  "nl \<notin> set b \<Longrightarrow> cr \<notin> set b \<Longrightarrow>
   readlines (b @ nl # rest) = (b @ [nl]) # readlines rest"
  by (simp add: readlines_def lines_from_line)

lemma describe_version_no_nl:
  assumes "parse_describe s = Inr (v, sha)"
  shows "nl \<notin> set v \<and> cr \<notin> set v"
proof (cases "search describe_pattern s")
  case None
  then show ?thesis using assms by (auto simp: parse_describe_def split: option.splits)
next
  case (Some g)
  from describe_group1 [OF Some] obtain t where
    t: "g 1 = Some t" "list_all (in_class (Union W (Union D (Ch CHR ''.'')))) t" by blast
  have "v = t" using assms Some t(1) by (simp add: parse_describe_def group_def)
  moreover have "\<not> in_class (Union W (Union D (Ch CHR ''.''))) nl"
    "\<not> in_class (Union W (Union D (Ch CHR ''.''))) cr"
    by (simp_all add: is_word_def is_digit_def code_def)
  ultimately show ?thesis using t(2) by (auto simp: list_all_iff simp del: in_class.simps)
qed

lemma result_tail_match:
  assumes "nl \<notin> set v"
  shows "first_match (Seq (Grp 1 (Star Any)) (Lit [dq])) (v @ [dq, nl]) g = Some ([nl], g(1 \<mapsto> v))"
proof -
  have "list_all (in_class Any) v" using assms by (auto simp: list_all_iff)
  from runs_prefix [OF this, of "[dq, nl]"] obtain t where
    "runs (in_class Any) (v @ [dq, nl])
       = map (\<lambda>(a, r). (v @ a, r)) (runs (in_class Any) [dq, nl]) @ t" by blast
  then show ?thesis by (simp add: first_match_def)
qed

lemma result_line_search:
  assumes "nl \<notin> set v"
  shows "\<exists>g. search result_pattern (''    result = '' @ [dq] @ v @ [dq, nl]) = Some g
             \<and> g 1 = Some v"
proof -
  let ?g0 = "\<lambda>n::nat. None :: string option"
  let ?r1 = "''result = '' @ [dq] @ v @ [dq, nl]"
  have 1: "first_match (Plus S) (''    '' @ ?r1) ?g0 = Some (?r1, ?g0)"
    by (intro first_match_Plus) (simp_all add: stops_def is_space_def code_def)
  have 2: "first_match (Lit (''result = '' @ [dq])) ?r1 ?g0 = Some (v @ [dq, nl], ?g0)"
    using first_match_Lit [of "''result = '' @ [dq]" "v @ [dq, nl]" ?g0] by simp
  have "first_match result_pattern (''    '' @ ?r1) ?g0 = Some ([nl], ?g0(1 \<mapsto> v))"
    unfolding result_pattern_def
    by (rule first_match_Seq [OF 1] first_match_Seq [OF 2] result_tail_match [OF assms])+
  then have "search result_pattern (''    '' @ ?r1) = Some (?g0(1 \<mapsto> v))"
    by (rule search_first)
  then show ?thesis by simp
qed

lemma module_head_no_result:
  "list_all (\<lambda>l. Option.is_none (search result_pattern l))
     [[dq, dq, dq, nl],
      ''Get software version information'' @ [nl],
      ''================================'' @ [nl],
      [dq, dq, dq, nl],
      [nl],
      [nl],
      ''def release(full: bool = False) -> str:'' @ [nl],
      ''    '' @ [dq, dq, dq] @ ''Returns the software version number'' @ [dq, dq, dq, nl]]"
  by code_simp

lemma readlines_lines:
  "\<forall>b \<in> set bodies. nl \<notin> set b \<and> cr \<notin> set b \<Longrightarrow>
   readlines (concat (map (\<lambda>b. b @ [nl]) bodies) @ rest)
     = map (\<lambda>b. b @ [nl]) bodies @ readlines rest"
  by (induction bodies) (simp_all add: readlines_line)

lemma module_scan:
  assumes "nl \<notin> set v" and "cr \<notin> set v"
  shows "scan_result (readlines (concat (version_module_lines v d))) = Inr v"
proof -
  let ?bodies = "[[dq, dq, dq],
      ''Get software version information'',
      ''================================'',
      [dq, dq, dq],
      [],
      [],
      ''def release(full: bool = False) -> str:'',
      ''    '' @ [dq, dq, dq] @ ''Returns the software version number'' @ [dq, dq, dq],
      ''    result = '' @ [dq] @ v @ [dq]]"
  obtain g where g: "search result_pattern (''    result = '' @ [dq] @ v @ [dq, nl]) = Some g"
    "g 1 = Some v" using result_line_search [OF assms(1)] by blast
  have "version_module_lines v d = map (\<lambda>b. b @ [nl]) ?bodies @ drop 9 (version_module_lines v d)"
    by (simp add: version_module_lines_def)
  then have "concat (version_module_lines v d)
               = concat (map (\<lambda>b. b @ [nl]) ?bodies) @ concat (drop 9 (version_module_lines v d))"
    by (metis concat_append)
  moreover have "\<forall>b \<in> set ?bodies. nl \<notin> set b \<and> cr \<notin> set b"
    using assms by simp
  ultimately have "readlines (concat (version_module_lines v d))
      = map (\<lambda>b. b @ [nl]) ?bodies @ readlines (concat (drop 9 (version_module_lines v d)))"
    by (simp only: readlines_lines)
  then show ?thesis
    using module_head_no_result g by (simp add: Option.is_none_def group_def)
qed

lemma revision_persists:
  assumes dev: "strip (shell h describe_cmd) \<noteq> []" and ok: "fst (revision h w) = Inr v"
  shows "\<exists>sha d. parse_describe (strip (shell h describe_cmd)) = Inr (v, sha)
           \<and> fs (snd (revision h w)) (os_path_join (cwd w) [''src'', ''pytide'', ''version.py''])
               = Some (File (concat (version_module_lines v d)))"
proof -
  let ?m = "os_path_join (cwd w) [''src'', ''pytide'', ''version.py'']"
  obtain ver sha where p: "parse_describe (strip (shell h describe_cmd)) = Inr (ver, sha)"
    using dev ok
    by (cases "parse_describe (strip (shell h describe_cmd))")
       (auto simp: revision_def execute_def Let_def)
  obtain d where c: "commit_date (shell h (log_cmd sha)) = Inr d"
    using dev ok p
    by (cases "commit_date (shell h (log_cmd sha))")
       (auto simp: revision_def execute_def Let_def)
  let ?w2 = "w\<lparr>ran := ran w @ [Shell describe_cmd, Shell (log_cmd sha)]\<rparr>"
  let ?meta = "os_path_join (cwd w) [''conda'', ''meta.yaml'']"
  obtain r3 w3 where m: "(if os_path_exists ?w2 ?meta then update_meta ?meta ver ?w2
                          else (Inr (), ?w2)) = (r3, w3)"
    by force
  obtain r4 w4 where u: "update_conf (os_path_join (cwd w) [''docs'', ''source'', ''conf.py''])
                            ver d w3 = (r4, w4)"
    by force
  obtain r5 w5 where o: "open_write ?m (concat (version_module_lines ver d)) w4 = (r5, w5)"
    by force
  have r: "revision h w =
             (case r3 of Inl e \<Rightarrow> (Inl e, w3)
              | Inr u3 \<Rightarrow> (case r4 of Inl e \<Rightarrow> (Inl e, w4)
                  | Inr u4 \<Rightarrow> (case r5 of Inl e \<Rightarrow> (Inl e, w5) | Inr u5 \<Rightarrow> (Inr ver, w5))))"
    using dev p c m u o
    by (cases "os_path_exists ?w2 ?meta")
       (auto simp: revision_def execute_def Let_def split: sum.splits)
  from ok r have "r5 = Inr ()" "ver = v" "snd (revision h w) = w5"
    by (auto split: sum.splits)
  then show ?thesis
    using p open_write_result [OF o] by auto
qed

text \<open>
  C4.  Every version that a run of \<open>revision\<close> returns is returned again by a later run,
  on the files the first run left, that gets no describe output.  When the first run had
  describe output, it wrote the version into the generated module, and it is from that
  text that the later run reads it.
\<close>

theorem version_round_trip:
  assumes "fst (revision h1 w) = Inr v" and "strip (shell h2 describe_cmd) = []"
  shows "fst (revision h2 (snd (revision h1 w))) = Inr v
         \<and> (strip (shell h1 describe_cmd) \<noteq> [] \<longrightarrow>
              (\<exists>d. fs (snd (revision h1 w)) (os_path_join (cwd w) [''src'', ''pytide'', ''version.py''])
                     = Some (File (concat (version_module_lines v d)))))"
proof (cases "strip (shell h1 describe_cmd) = []")
  case True
  let ?m = "os_path_join (cwd w) [''src'', ''pytide'', ''version.py'']"
  have r1: "revision h1 w = recover_version ?m (w\<lparr>ran := ran w @ [Shell describe_cmd]\<rparr>)"
    using True by (rule revision_recover)
  then have w1: "snd (revision h1 w) = w\<lparr>ran := ran w @ [Shell describe_cmd]\<rparr>"
    by (simp add: recover_version_def split: sum.splits)
  have "fst (revision h2 (snd (revision h1 w))) = fst (revision h1 w)"
    unfolding w1 revision_recover [OF assms(2)] r1
    by (simp add: recover_version_def open_read_def split: option.splits node.splits)
  then show ?thesis using assms(1) True by simp
next
  case False
  let ?m = "os_path_join (cwd w) [''src'', ''pytide'', ''version.py'']"
  let ?w' = "snd (revision h1 w)"
  from revision_persists [OF False assms(1)] obtain sha d where
    p: "parse_describe (strip (shell h1 describe_cmd)) = Inr (v, sha)"
    and f: "fs ?w' ?m = Some (File (concat (version_module_lines v d)))" by blast
  have c: "cwd ?w' = cwd w"
    using revision_dev [OF False p, of w] by simp
  have "nl \<notin> set v" "cr \<notin> set v"
    using describe_version_no_nl [OF p] by simp_all
  then have "scan_result (readlines (concat (version_module_lines v d))) = Inr v"
    by (rule module_scan)
  then have "fst (revision h2 ?w') = Inr v"
    using f c by (simp add: revision_recover [OF assms(2)] recover_version_def open_read_def)
  then show ?thesis using f False by blast
qed

theorem version_round_trip_witness:
  "fst (revision (git_host (''1.0-3-gab'' @ [nl]) (''ab 1572566400'' @ [nl])) source_tree)
     = Inr ''1.0''
   \<and> fst (revision (git_host [] [])
              (snd (revision (git_host (''1.0-3-gab'' @ [nl]) (''ab 1572566400'' @ [nl]))
                      source_tree)))
     = Inr ''1.0''"
proof -
  have a: "fst (revision (git_host (''1.0-3-gab'' @ [nl]) (''ab 1572566400'' @ [nl])) source_tree)
     = Inr ''1.0''"
    by code_simp
  have e: "strip (shell (git_host [] []) describe_cmd) = []"
    by code_simp
  show ?thesis
    using version_round_trip [OF a e] a by simp
qed

subsection \<open>The documentation configuration\<close>

lemma lines_from_empty [simp]: "lines_from False s = [] \<longleftrightarrow> s = []"
  by (cases s) (auto split: list.splits)

lemma readlines_empty [simp]: "readlines s = [] \<longleftrightarrow> s = []"
  by (simp add: readlines_def)































subsection \<open>The native build\<close>

lemma join_library_include:
  "os_path_dirname (os_path_join p [''Library'', ''include'', ''eigen3''])
     = os_path_join p [''Library'', ''include'']"
  by (simp add: os_path_join_def os_path_dirname_def)

lemma build_run_eigen:
  "eigen_root opts = Some d \<Longrightarrow> EIGEN3_INCLUDE_DIR (build_run opts b) = Some d"
  by (simp add: build_run_def split: option.splits)

lemma set_cmake_user_options_override:
  "EIGEN3_INCLUDE_DIR b = Some d \<Longrightarrow>
   set_cmake_user_options h b w =
     Inr ((case CXX_COMPILER b of Some c \<Rightarrow> [''-DCMAKE_CXX_COMPILER='' @ c] | None \<Rightarrow> [])
          @ [''-DEIGEN3_INCLUDE_DIR='' @ d])"
  by (simp add: set_cmake_user_options_def)

lemma cmake_arguments_keeps:
  "cmake_arguments h b extdir user = Inr (ca, ba) \<Longrightarrow> x \<in> set user \<Longrightarrow> x \<in> set ca"
  by (auto simp: cmake_arguments_def Let_def split: if_splits option.splits)

lemma cmake_arguments_keeps_last:
  "cmake_arguments h b extdir (xs @ [x]) = Inr (ca, ba) \<Longrightarrow> x \<in> set ca"
  by (erule cmake_arguments_keeps) simp

lemma ran_chdir: "ran (snd (chdir p w)) = ran w"
  by (simp add: chdir_def split: option.splits node.splits)

lemma mkdir_result:
  "mkdir p w = (r, w') \<Longrightarrow>
     cwd w' = cwd w \<and> ran w' = ran w
     \<and> (\<forall>e. r = Inl e \<longrightarrow>
           w' = w \<and> (exn_kind e = FileExistsError \<or> exn_kind e = NotADirectoryError))"
  by (auto simp: mkdir_def Let_def os_error_def split: option.splits node.splits if_splits)

lemma mkdir_made:
  "mkdir p w = (Inr u, w') \<Longrightarrow> fs w' (absolute w p) = Some Dir"
  by (auto simp: mkdir_def Let_def split: option.splits node.splits if_splits)

lemma mkdir_keeps:
  "mkdir p w = (r, w') \<Longrightarrow> fs w x \<noteq> None \<Longrightarrow> fs w' x \<noteq> None"
  by (auto simp: mkdir_def Let_def split: option.splits node.splits if_splits)

lemma chdir_ok:
  "chdir p w = (Inr u, w') \<Longrightarrow> cwd w' = absolute w p \<and> ran w' = ran w \<and> fs w' = fs w"
  by (auto simp: chdir_def split: option.splits node.splits)

lemma chdir_fail:
  "chdir p w = (Inl e, w') \<Longrightarrow>
     w' = w \<and> (exn_kind e = NotADirectoryError \<or> exn_kind e = FileNotFoundError)"
  by (auto simp: chdir_def os_error_def split: option.splits node.splits)

lemma spawn_result:
  "spawn h b c w = (r, w') \<Longrightarrow>
     cwd w' = cwd w \<and> fs w' = fs w \<and> (ran w' = ran w \<or> ran w' = ran w @ [Spawn c])
     \<and> (\<forall>e. r = Inl e \<longrightarrow> exn_kind e = DistutilsExecError)"
  by (auto simp: spawn_def split: if_splits)

lemma eigen_kind: "eigen h w = Inl e \<Longrightarrow> exn_kind e = RuntimeError"
  by (auto simp: eigen_def Let_def split: if_splits)

lemma set_cmake_user_options_kind:
  "set_cmake_user_options h b w = Inl e \<Longrightarrow> exn_kind e = RuntimeError"
  by (auto simp: set_cmake_user_options_def Let_def eigen_kind
      split: if_splits option.splits sum.splits)

lemma cmake_arguments_kind:
  "cmake_arguments h b extdir user = Inl e \<Longrightarrow> exn_kind e = TypeError"
  by (auto simp: cmake_arguments_def Let_def split: if_splits option.splits)

lemma absolute_abs: "isabs p \<Longrightarrow> absolute w p = p"
  by (simp add: absolute_def)

lemma build_cmake_restores:
  assumes "isabs (cwd w)" and "build_cmake h b name w = (Inr u, w')"
  shows "cwd w' = cwd w"
  using assms
  by (auto simp: build_cmake_def Let_def absolute_abs split: prod.splits sum.splits if_splits
      dest!: chdir_ok)

lemma build_cmake_left_in_build_temp:
  assumes "build_cmake h b name w = (Inl e, w')" and "exn_kind e = DistutilsExecError"
  shows "cwd w' = absolute w (build_temp b)"
  using assms
  by (auto simp: build_cmake_def Let_def absolute_def split: prod.splits sum.splits if_splits
      dest!: chdir_ok chdir_fail mkdir_result spawn_result set_cmake_user_options_kind
        cmake_arguments_kind)

lemma build_cmake_configure_carries:
  assumes "EIGEN3_INCLUDE_DIR b = Some d"
    and "Spawn c \<in> set (ran (snd (build_cmake h b name w)))"
  shows "Spawn c \<in> set (ran w) \<or> take 2 c = [''cmake'', ''--build'']
         \<or> ''-DEIGEN3_INCLUDE_DIR='' @ d \<in> set c"
  using assms
  by (auto simp: build_cmake_def Let_def set_cmake_user_options_override ran_chdir
      split: prod.splits sum.splits if_splits
      dest!: chdir_ok chdir_fail mkdir_result spawn_result cmake_arguments_keeps_last)

lemma eigen_missing:
  assumes "fs w (os_path_join (sys_prefix h) [''include'', ''eigen3'']) = None"
    and "fs w (os_path_join (sys_prefix h) [''Library'', ''include'', ''eigen3'']) = None"
    and "fs w (os_path_join (sys_prefix h) [''Library'', ''include'']) = None"
  shows "eigen h w
           = Inl (Exn RuntimeError
                ''Unable to find the Eigen3 library in the conda distribution used.'')"
  using assms by (simp add: eigen_def os_path_exists_def Let_def join_library_include)

lemma is_conda_mkdir:
  "is_conda h w \<Longrightarrow> mkdir p w = (r, w') \<Longrightarrow> is_conda h w'"
  by (auto simp: is_conda_def Let_def os_path_exists_def dest: mkdir_keeps split: if_splits)

lemma build_cmake_command_fails:
  assumes "\<not> dry_run b" and m: "mkdir (build_temp b) w = (Inr (), w1)"
    and u: "set_cmake_user_options h b w1 = Inr user"
    and c: "cmake_arguments h b (os_path_dirname (absolute w1 (get_ext_fullpath b name))) user
              = Inr (ca, ba)"
    and f: "\<not> spawn_ok h ([''cmake'', cwd w] @ ca)
            \<or> \<not> spawn_ok h ([''cmake'', ''--build'', ''.'', ''--target'', ''core''] @ ba)"
  shows "(\<exists>m. fst (build_cmake h b name w) = Inl (Exn DistutilsExecError m))
         \<and> cwd (snd (build_cmake h b name w)) = absolute w (build_temp b)"
proof -
  have a: "absolute w1 (build_temp b) = absolute w (build_temp b)"
    using mkdir_result [OF m] by (simp add: absolute_def)
  have d: "fs w1 (absolute w1 (build_temp b)) = Some Dir"
    using mkdir_made [OF m] unfolding a .
  show ?thesis
    using assms(1) m u c f d a
    by (auto simp: build_cmake_def Let_def chdir_def spawn_def)
qed

lemma build_cmake_all_succeed:
  "fst (build_cmake (conda_host True) plain_ext ''pytide.core'' library_tree) = Inr ()
   \<and> cwd (snd (build_cmake (conda_host True) plain_ext ''pytide.core'' library_tree)) = ''/p''
   \<and> ran (snd (build_cmake (conda_host True) plain_ext ''pytide.core'' library_tree))
       = [Spawn [''cmake'', ''/p'',
                 ''-DCMAKE_LIBRARY_OUTPUT_DIRECTORY=/p/build/lib/pytide'',
                 ''-DPYTHON_EXECUTABLE=/c/bin/python'',
                 ''-DEIGEN3_INCLUDE_DIR=/c/Library/include'',
                 ''-DCMAKE_BUILD_TYPE=Release''],
          Spawn [''cmake'', ''--build'', ''.'', ''--target'', ''core'', ''--config'',
                 ''Release'', ''--'', ''-j4'']]"
  by code_simp

lemma build_cmake_configure_fails:
  "fst (build_cmake (conda_host False) plain_ext ''pytide.core'' library_tree)
     = Inl (Exn DistutilsExecError (''command '' @ [sq] @ ''cmake'' @ [sq] @ '' failed''))
   \<and> cwd (snd (build_cmake (conda_host False) plain_ext ''pytide.core'' library_tree))
       = ''/p/build/t''
   \<and> ran (snd (build_cmake (conda_host False) plain_ext ''pytide.core'' library_tree))
       = [Spawn [''cmake'', ''/p'',
                 ''-DCMAKE_LIBRARY_OUTPUT_DIRECTORY=/p/build/lib/pytide'',
                 ''-DPYTHON_EXECUTABLE=/c/bin/python'',
                 ''-DEIGEN3_INCLUDE_DIR=/c/Library/include'',
                 ''-DCMAKE_BUILD_TYPE=Release'']]"
  by code_simp

lemma build_cmake_build_fails:
  "fst (build_cmake build_fails_host plain_ext ''pytide.core'' library_tree)
     = Inl (Exn DistutilsExecError (''command '' @ [sq] @ ''cmake'' @ [sq] @ '' failed''))
   \<and> cwd (snd (build_cmake build_fails_host plain_ext ''pytide.core'' library_tree))
       = ''/p/build/t''
   \<and> ran (snd (build_cmake build_fails_host plain_ext ''pytide.core'' library_tree))
       = [Spawn [''cmake'', ''/p'',
                 ''-DCMAKE_LIBRARY_OUTPUT_DIRECTORY=/p/build/lib/pytide'',
                 ''-DPYTHON_EXECUTABLE=/c/bin/python'',
                 ''-DEIGEN3_INCLUDE_DIR=/c/Library/include'',
                 ''-DCMAKE_BUILD_TYPE=Release''],
          Spawn [''cmake'', ''--build'', ''.'', ''--target'', ''core'', ''--config'',
                 ''Release'', ''--'', ''-j4'']]"
  by code_simp

text \<open>
  C2.  \<open>build_cmake\<close> saves the working directory (line 198) and changes back to it
  (line 240), and the directory is to be the same after the step as before it, whatever
  the outcome.  The code misses that for a failing external command: the
  \<open>DistutilsExecError\<close> of \<open>spawn\<close> leaves \<open>build_cmake\<close> at line 236 or 238, line 240 is
  not reached, and the process stays in the build directory.  In the tree \<open>/p\<close>: with a
  failing configure command, and with a failing build command after a configure command
  that succeeded, the step ends in \<open>/p/build/t\<close>; when both succeed it ends in \<open>/p\<close>.
\<close>

theorem build_cmake_failure_keeps_build_temp:
  "cwd library_tree = ''/p''
   \<and> fst (build_cmake (conda_host False) plain_ext ''pytide.core'' library_tree)
       = Inl (Exn DistutilsExecError (''command '' @ [sq] @ ''cmake'' @ [sq] @ '' failed''))
   \<and> cwd (snd (build_cmake (conda_host False) plain_ext ''pytide.core'' library_tree))
       = ''/p/build/t''
   \<and> fst (build_cmake build_fails_host plain_ext ''pytide.core'' library_tree)
       = Inl (Exn DistutilsExecError (''command '' @ [sq] @ ''cmake'' @ [sq] @ '' failed''))
   \<and> cwd (snd (build_cmake build_fails_host plain_ext ''pytide.core'' library_tree))
       = ''/p/build/t''
   \<and> fst (build_cmake (conda_host True) plain_ext ''pytide.core'' library_tree) = Inr ()
   \<and> cwd (snd (build_cmake (conda_host True) plain_ext ''pytide.core'' library_tree)) = ''/p''"
  using build_cmake_configure_fails build_cmake_build_fails build_cmake_all_succeed
  by (simp add: library_tree_def)

text \<open>
  C3, as claimed: without an override, in a conda environment in which neither
  \<open>include/eigen3\<close> nor \<open>Library/include/eigen3\<close> exists under the prefix, a fatal error
  is raised before any external command runs.  It does not hold: \<open>eigen\<close> then falls back
  to the directory \<open>Library/include\<close>, and when that exists both commands are run.
\<close>

theorem eigen_not_found_counterexample:
  "EIGEN3_INCLUDE_DIR plain_ext = None
   \<and> is_conda (conda_host True) library_tree
   \<and> \<not> os_path_exists library_tree
         (os_path_join (sys_prefix (conda_host True)) [''include'', ''eigen3''])
   \<and> \<not> os_path_exists library_tree
         (os_path_join (sys_prefix (conda_host True)) [''Library'', ''include'', ''eigen3''])
   \<and> set_cmake_user_options (conda_host True) plain_ext library_tree
       = Inr [''-DEIGEN3_INCLUDE_DIR=/c/Library/include'']
   \<and> fst (build_cmake (conda_host True) plain_ext ''pytide.core'' library_tree) = Inr ()
   \<and> length (ran (snd (build_cmake (conda_host True) plain_ext ''pytide.core'' library_tree)))
       = 2"
  by (simp add: build_cmake_all_succeed) code_simp

text \<open>
  C3, amended: without an override, in a conda environment, when none of
  \<open>include/eigen3\<close>, \<open>Library/include/eigen3\<close> and \<open>Library/include\<close> exists under
  the prefix at the time of the probe, that is once \<open>build_cmake\<close> has made its build
  directory, \<open>set_cmake_user_options\<close> raises RuntimeError, and \<open>build_cmake\<close> raises it
  before any external command runs and before the working directory changes.
\<close>

theorem eigen_not_found_is_fatal:
  assumes "EIGEN3_INCLUDE_DIR b = None"
    and "fst (mkdir (build_temp b) w) = Inr ()"
    and "is_conda h (snd (mkdir (build_temp b) w))"
    and "fs (snd (mkdir (build_temp b) w))
           (os_path_join (sys_prefix h) [''include'', ''eigen3'']) = None"
    and "fs (snd (mkdir (build_temp b) w))
           (os_path_join (sys_prefix h) [''Library'', ''include'', ''eigen3'']) = None"
    and "fs (snd (mkdir (build_temp b) w))
           (os_path_join (sys_prefix h) [''Library'', ''include'']) = None"
  shows "set_cmake_user_options h b (snd (mkdir (build_temp b) w))
           = Inl (Exn RuntimeError
                ''Unable to find the Eigen3 library in the conda distribution used.'')
         \<and> fst (build_cmake h b name w)
           = Inl (Exn RuntimeError
                ''Unable to find the Eigen3 library in the conda distribution used.'')
         \<and> ran (snd (build_cmake h b name w)) = ran w
         \<and> cwd (snd (build_cmake h b name w)) = cwd w"
proof -
  let ?E = "Exn RuntimeError
              ''Unable to find the Eigen3 library in the conda distribution used.''"
  obtain r1 w1 where m: "mkdir (build_temp b) w = (r1, w1)" by force
  have ok: "r1 = Inr ()" and w1: "snd (mkdir (build_temp b) w) = w1"
    using m assms(2) by simp_all
  have fr: "cwd w1 = cwd w" "ran w1 = ran w"
    using mkdir_result [OF m] by simp_all
  have "eigen h w1 = Inl ?E"
    using assms(4-6) unfolding w1 by (rule eigen_missing)
  then have b1: "set_cmake_user_options h b w1 = Inl ?E"
    using assms(1,3) unfolding w1 by (simp add: set_cmake_user_options_def)
  have "build_cmake h b name w = (Inl ?E, w1)"
    using m ok b1 by (simp add: build_cmake_def Let_def)
  then show ?thesis using b1 fr w1 by simp
qed

theorem eigen_not_found_is_fatal_witness:
  "set_cmake_user_options (conda_host True) plain_ext
      (snd (mkdir (build_temp plain_ext) bare_tree))
     = Inl (Exn RuntimeError
          ''Unable to find the Eigen3 library in the conda distribution used.'')
   \<and> fst (build_cmake (conda_host True) plain_ext ''pytide.core'' bare_tree)
     = Inl (Exn RuntimeError
          ''Unable to find the Eigen3 library in the conda distribution used.'')
   \<and> ran (snd (build_cmake (conda_host True) plain_ext ''pytide.core'' bare_tree)) = []
   \<and> cwd (snd (build_cmake (conda_host True) plain_ext ''pytide.core'' bare_tree)) = ''/p''"
proof -
  have h: "EIGEN3_INCLUDE_DIR plain_ext = None
     \<and> fst (mkdir (build_temp plain_ext) bare_tree) = Inr ()
     \<and> is_conda (conda_host True) (snd (mkdir (build_temp plain_ext) bare_tree))
     \<and> fs (snd (mkdir (build_temp plain_ext) bare_tree))
         (os_path_join (sys_prefix (conda_host True)) [''include'', ''eigen3'']) = None
     \<and> fs (snd (mkdir (build_temp plain_ext) bare_tree))
         (os_path_join (sys_prefix (conda_host True)) [''Library'', ''include'', ''eigen3''])
         = None
     \<and> fs (snd (mkdir (build_temp plain_ext) bare_tree))
         (os_path_join (sys_prefix (conda_host True)) [''Library'', ''include'']) = None"
    by code_simp
  have "ran bare_tree = []" "cwd bare_tree = ''/p''"
    by (simp_all add: bare_tree_def)
  then show ?thesis
    using eigen_not_found_is_fatal
            [of plain_ext bare_tree "conda_host True" "''pytide.core''"] h
    by simp
qed

text \<open>
  C9.  When the user gives an include directory for Eigen3 (\<open>--eigen-root\<close>), the option
  list is the compiler definition, if any, followed by the Eigen3 definition with that
  directory verbatim, whatever the host and the file system are: the conda probe is not
  consulted and cannot fail.  Every configure command that \<open>build_cmake\<close> spawns carries
  the definition.
\<close>

theorem explicit_eigen_override_wins:
  assumes "eigen_root opts = Some d"
  shows "set_cmake_user_options h (build_run opts b) w =
           Inr ((case CXX_COMPILER (build_run opts b) of
                   Some c \<Rightarrow> [''-DCMAKE_CXX_COMPILER='' @ c] | None \<Rightarrow> [])
                @ [''-DEIGEN3_INCLUDE_DIR='' @ d])
         \<and> (\<forall>c. Spawn c \<in> set (ran (snd (build_cmake h (build_run opts b) name w))) \<longrightarrow>
                Spawn c \<in> set (ran w) \<or> take 2 c = [''cmake'', ''--build'']
                \<or> ''-DEIGEN3_INCLUDE_DIR='' @ d \<in> set c)"
  using build_run_eigen [OF assms, of b] build_cmake_configure_carries
  by (simp add: set_cmake_user_options_override)

theorem explicit_eigen_override_wins_witness:
  "eigen_root \<lparr>cxx_compiler = None, eigen_root = Some ''/opt/eigen''\<rparr> = Some ''/opt/eigen''
   \<and> eigen (conda_host True) library_tree = Inr ''-DEIGEN3_INCLUDE_DIR=/c/Library/include''
   \<and> set_cmake_user_options (conda_host True)
        (build_run \<lparr>cxx_compiler = None, eigen_root = Some ''/opt/eigen''\<rparr> plain_ext)
        library_tree
      = Inr [''-DEIGEN3_INCLUDE_DIR=/opt/eigen'']
   \<and> Spawn [''cmake'', ''/p'', ''-DCMAKE_LIBRARY_OUTPUT_DIRECTORY=/p/build/lib/pytide'',
            ''-DPYTHON_EXECUTABLE=/c/bin/python'', ''-DEIGEN3_INCLUDE_DIR=/opt/eigen'',
            ''-DCMAKE_BUILD_TYPE=Release'']
        \<in> set (ran (snd (build_cmake (conda_host True)
                            (build_run \<lparr>cxx_compiler = None, eigen_root = Some ''/opt/eigen''\<rparr>
                               plain_ext)
                            ''pytide.core'' library_tree)))"
proof -
  let ?opts = "\<lparr>cxx_compiler = None, eigen_root = Some ''/opt/eigen''\<rparr>"
  let ?c = "[''cmake'', ''/p'', ''-DCMAKE_LIBRARY_OUTPUT_DIRECTORY=/p/build/lib/pytide'',
             ''-DPYTHON_EXECUTABLE=/c/bin/python'', ''-DEIGEN3_INCLUDE_DIR=/opt/eigen'',
             ''-DCMAKE_BUILD_TYPE=Release'']"
  have e: "eigen (conda_host True) library_tree = Inr ''-DEIGEN3_INCLUDE_DIR=/c/Library/include''"
    by code_simp
  have r: "ran (snd (build_cmake (conda_host True) (build_run ?opts plain_ext) ''pytide.core''
                       library_tree))
             = [Spawn ?c,
                Spawn [''cmake'', ''--build'', ''.'', ''--target'', ''core'', ''--config'',
                       ''Release'', ''--'', ''-j4'']]"
    by code_simp
  have n: "ran library_tree = []" "take 2 ?c \<noteq> [''cmake'', ''--build'']"
    by (simp_all add: library_tree_def)
  have o: "eigen_root ?opts = Some ''/opt/eigen''"
    by simp
  from explicit_eigen_override_wins
         [OF o, of "conda_host True" plain_ext library_tree "''pytide.core''"]
  have "set_cmake_user_options (conda_host True) (build_run ?opts plain_ext) library_tree
          = Inr [''-DEIGEN3_INCLUDE_DIR=/opt/eigen'']"
    and "Spawn ?c \<in> set (ran (snd (build_cmake (conda_host True) (build_run ?opts plain_ext)
                                     ''pytide.core'' library_tree))) \<longrightarrow>
         Spawn ?c \<in> set (ran library_tree) \<or> take 2 ?c = [''cmake'', ''--build'']
         \<or> ''-DEIGEN3_INCLUDE_DIR='' @ ''/opt/eigen'' \<in> set ?c"
    by (simp_all add: build_run_def plain_ext_def)
  then show ?thesis using e r n o by simp
qed

text \<open>
  C10.  The gate raises RuntimeError exactly when the major version is below 3 or the
  minor version is below 6; an interpreter 4.0 is rejected although it is newer than 3.6.
\<close>

theorem check_python_rejects_iff:
  "((\<exists>m. check_python MAJOR MINOR = Inl (Exn RuntimeError m)) \<longleftrightarrow> (MAJOR < 3 \<or> MINOR < 6))
   \<and> (check_python MAJOR MINOR = Inr () \<longleftrightarrow> \<not> (MAJOR < 3 \<or> MINOR < 6))
   \<and> (\<exists>m. check_python 4 0 = Inl (Exn RuntimeError m))"
  by (auto simp: check_python_def)

theorem check_python_rejects_iff_witness:
  "(\<exists>m. check_python 4 0 = Inl (Exn RuntimeError m)) \<and> check_python 3 6 = Inr ()
   \<and> check_python 2 7 \<noteq> Inr ()"
  using check_python_rejects_iff [of 4 0] check_python_rejects_iff [of 3 6]
    check_python_rejects_iff [of 2 7]
  by simp

end
